theory Spec2Isabelle
  imports Main "HOL-Library.AList"
begin

section \<open>JavaScript values and objects\<close>

text \<open>
  The queries handled by \<^verbatim>\<open>DataSourceWithBackend\<close> are plain JavaScript objects with
  fields that the class does not know. A value is one of the JavaScript primitives or a
  plain object; an object is the list of its own properties in insertion order, every key
  occurring once. Numbers are the integers (identifiers, counts and epoch milliseconds are
  all the code computes with); \<^verbatim>\<open>NaN\<close>, fractions and the infinities are left out.
\<close>

datatype jsval =
    JUndefined
  | JNull
  | JBool bool
  | JNum int
  | JStr string
  | JObj "(string \<times> jsval) list"

type_synonym js_object = "(string \<times> jsval) list"

text \<open>\<^verbatim>\<open>o.k\<close>: the value of an own property, \<^verbatim>\<open>undefined\<close> when there is none.\<close>

definition js_get :: "js_object \<Rightarrow> string \<Rightarrow> jsval" where
  "js_get obj k = (case map_of obj k of None \<Rightarrow> JUndefined | Some v \<Rightarrow> v)"

text \<open>
  \<^verbatim>\<open>{...o, k1: v1, ..., kn: vn}\<close>: a copy of \<^verbatim>\<open>o\<close> in which the listed properties are
  set from left to right; a property that \<^verbatim>\<open>o\<close> has keeps its place and takes the new
  value, a new one is appended.
\<close>

fun spread :: "js_object \<Rightarrow> (string \<times> jsval) list \<Rightarrow> js_object" where
  "spread obj [] = obj"
| "spread obj ((k, v) # kvs) = spread (AList.update k v obj) kvs"

text \<open>The truth value that \<^verbatim>\<open>if (v)\<close>, \<^verbatim>\<open>!v\<close> and \<^verbatim>\<open>v || d\<close> give to a value.\<close>

fun truthy :: "jsval \<Rightarrow> bool" where
  "truthy JUndefined = False"
| "truthy JNull = False"
| "truthy (JBool b) = b"
| "truthy (JNum n) = (n \<noteq> 0)"
| "truthy (JStr s) = (s \<noteq> [])"
| "truthy (JObj _) = True"

text \<open>\<^verbatim>\<open>Number.prototype.toString\<close> on an integer: its decimal digits, after a minus sign
  when it is negative.\<close>

definition digit_char :: "nat \<Rightarrow> char" where
  "digit_char d = ''0123456789'' ! d"

fun digits10 :: "nat \<Rightarrow> string" where
  "digits10 n = (if n < 10 then [digit_char n] else digits10 (n div 10) @ [digit_char (n mod 10)])"

declare digits10.simps [simp del]

definition number_toString :: "int \<Rightarrow> string" where
  "number_toString n = (if n < 0 then CHR ''-'' # digits10 (nat (- n)) else digits10 (nat n))"

text \<open>
  The string that \<^verbatim>\<open>'...' + v\<close> and the property access \<^verbatim>\<open>table[v]\<close> make of a value
  (a plain object has the \<^verbatim>\<open>toString\<close> of \<^verbatim>\<open>Object.prototype\<close>).
\<close>

fun js_toString :: "jsval \<Rightarrow> string" where
  "js_toString JUndefined = ''undefined''"
| "js_toString JNull = ''null''"
| "js_toString (JBool b) = (if b then ''true'' else ''false'')"
| "js_toString (JNum n) = number_toString n"
| "js_toString (JStr s) = s"
| "js_toString (JObj _) = ''[object Object]''"

text \<open>\<^verbatim>\<open>throw new Error(message)\<close>.\<close>

datatype js_error = Error string

section \<open>The data of a query request\<close>

text \<open>A \<^verbatim>\<open>DateTime\<close> is read through \<^verbatim>\<open>valueOf()\<close> only, which is its epoch in milliseconds.\<close>

datatype DateTime = DateTime (valueOf: int)

record 'raw TimeRange =
  range_from :: DateTime
  range_to :: DateTime
  range_raw :: 'raw

text \<open>
  The fields of a \<^verbatim>\<open>DataQueryRequest\<close> that \<^verbatim>\<open>query\<close> reads or \<^verbatim>\<open>annotationQuery\<close>
  writes. An optional field that is absent is \<open>None\<close>. (\<open>range'\<close> is the field
  \<^verbatim>\<open>range\<close>.)
\<close>

record ('rr, 'tz) DataQueryRequest =
  requestId :: string
  interval :: "string option"
  intervalMs :: "int option"
  maxDataPoints :: "int option"
  range' :: "'rr TimeRange option"
  rangeRaw :: "'rr option"
  scopedVars :: js_object
  targets :: "js_object list"
  timezone :: "'tz option"
  app :: "string option"
  startTime :: "int option"

text \<open>The global \<^verbatim>\<open>config\<close>: \<^verbatim>\<open>bootData.user.orgId\<close>, \<^verbatim>\<open>defaultDatasource\<close> and the
  table \<^verbatim>\<open>datasources\<close> from a name to the settings of the data source of that name, of
  which \<^verbatim>\<open>query\<close> reads the \<^verbatim>\<open>id\<close>. The field \<open>datasources\<close> holds the entries that
  the table has of its own.\<close>

record DataSourceInstanceSettings =
  ds_id :: int

record Config =
  orgId :: int
  defaultDatasource :: string
  datasources :: "string \<rightharpoonup> DataSourceInstanceSettings"

text \<open>
  The table is a plain JavaScript object, and \<^verbatim>\<open>config.datasources[name]\<close> is a property
  access: it finds the entry of that name, and, when the table has no such entry, the
  member of that name that every object inherits from \<^verbatim>\<open>Object.prototype\<close>. These members
  are functions (and, for \<^verbatim>\<open>__proto__\<close>, the prototype itself): they are truthy and have
  no \<^verbatim>\<open>id\<close>.
\<close>

definition Object_prototype_keys :: "string list" where
  "Object_prototype_keys =
     [''constructor'', ''hasOwnProperty'', ''isPrototypeOf'', ''propertyIsEnumerable'',
      ''toLocaleString'', ''toString'', ''valueOf'', ''__proto__'',
      ''__defineGetter__'', ''__defineSetter__'', ''__lookupGetter__'', ''__lookupSetter__'']"

datatype TableMember = Settings DataSourceInstanceSettings | Inherited

definition datasources_get :: "Config \<Rightarrow> string \<Rightarrow> TableMember option" where
  "datasources_get cfg name =
     (case datasources cfg name of
        Some ds \<Rightarrow> Some (Settings ds)
      | None \<Rightarrow> if name \<in> set Object_prototype_keys then Some Inherited else None)"

text \<open>\<^verbatim>\<open>ds.id\<close>: the \<^verbatim>\<open>id\<close> of the settings, \<^verbatim>\<open>undefined\<close> on an inherited member.\<close>

fun member_id :: "TableMember \<Rightarrow> jsval" where
  "member_id (Settings ds) = JNum (ds_id ds)"
| "member_id Inherited = JUndefined"

definition ExpressionDatasourceID :: string where
  "ExpressionDatasourceID = ''__expr__''"

text \<open>
  Modelled from the spec: the type \<^verbatim>\<open>DataQueryResponse\<close> is declared in the package
  \<^verbatim>\<open>@grafana/data\<close>, whose sources are not part of this development. The spec's
  NormalizedResult is
  "either a successful collection of typed result frames, or a failure carrying a
  normalized error description". The code builds the successful result
  \<^verbatim>\<open>{ data: [] }\<close> and reads \<^verbatim>\<open>rsp.data?.length\<close> and \<^verbatim>\<open>rsp.data[0]\<close>: the frames of a
  successful result, and no frames of a failure.
\<close>

datatype ('f, 'err) DataQueryResponse =
    Frames "'f list"
  | Failure 'err

fun data :: "('f, 'err) DataQueryResponse \<Rightarrow> 'f list option" where
  "data (Frames fs) = Some fs"
| "data (Failure _) = None"

section \<open>The body and the transport\<close>

text \<open>The body of the POST: \<^verbatim>\<open>queries\<close>, and \<^verbatim>\<open>range\<close>, \<^verbatim>\<open>from\<close>, \<^verbatim>\<open>to\<close> when they are
  set.\<close>

record 'rr Body =
  queries :: "js_object list"
  body_range :: "'rr TimeRange option"
  body_from :: "string option"
  body_to :: "string option"

text \<open>The argument of \<^verbatim>\<open>getBackendSrv().fetch\<close>.\<close>

record 'rr FetchOptions =
  url :: string
  http_method :: string
  fetch_data :: "'rr Body"
  fetch_requestId :: string

text \<open>
  The observable that \<^verbatim>\<open>fetch\<close> returns settles once: it emits the reply of the backend
  and completes, or it fails with an error value. Both are values of one type (the code
  takes them as \<^verbatim>\<open>any\<close>).
\<close>

datatype 'raw FetchResult = Next 'raw | Failed 'raw

text \<open>
  What the class is given from outside: the configuration, the transport
  \<^verbatim>\<open>getBackendSrv().fetch\<close>, the decoding routine \<^verbatim>\<open>toDataQueryResponse\<close> (of
  \<^verbatim>\<open>./queryResponse\<close>; \<open>Inl\<close> is a value it throws), the routine
  \<^verbatim>\<open>getAnnotationsFromFrame\<close> (of \<^verbatim>\<open>./annotationsFromDataFrame\<close>; the model keeps the
  \<^verbatim>\<open>events\<close> of what it returns) and the clock \<^verbatim>\<open>Date.now()\<close>.
\<close>

record ('rr, 'raw, 'f, 'err, 'ev) Env =
  config :: Config
  fetch :: "'rr FetchOptions \<Rightarrow> 'raw FetchResult"
  toDataQueryResponse :: "'raw \<Rightarrow> 'raw + ('f, 'err) DataQueryResponse"
  getAnnotationsFromFrame :: "'f \<Rightarrow> 'ev list"
  now :: int

text \<open>
  An instance of the class: its \<^verbatim>\<open>id\<close>, the optional hook \<^verbatim>\<open>filterQuery\<close> and the hook
  \<^verbatim>\<open>applyTemplateVariables\<close>. The hooks are functions of their arguments.
\<close>

record DataSourceWithBackend =
  this_id :: int
  filterQuery :: "(js_object \<Rightarrow> bool) option"
  applyTemplateVariables :: "js_object \<Rightarrow> js_object \<Rightarrow> js_object"

text \<open>The \<^verbatim>\<open>applyTemplateVariables\<close> of the class itself (lines 142--144): \<^verbatim>\<open>return query\<close>.\<close>

definition applyTemplateVariables_default :: "js_object \<Rightarrow> js_object \<Rightarrow> js_object" where
  "applyTemplateVariables_default query' scopedVars' = query'"

section \<open>\<^verbatim>\<open>query\<close> (lines 62--124; lines 297--359 of the second listing are the same)\<close>

text \<open>
  Lines 70 and 78--85: the \<^verbatim>\<open>datasourceId\<close> of a target that is not an expression. It is
  \<^verbatim>\<open>this.id\<close> unless \<^verbatim>\<open>q.datasource\<close> is truthy; then the name, with
  \<^verbatim>\<open>config.defaultDatasource\<close> for \<^verbatim>\<open>'default'\<close>, is looked up in \<^verbatim>\<open>config.datasources\<close>;
  when the access finds nothing (\<^verbatim>\<open>!ds\<close>) the function throws, and otherwise the
  \<^verbatim>\<open>datasourceId\<close> is the \<^verbatim>\<open>id\<close> of what it found.
\<close>

definition resolve_datasourceId :: "Config \<Rightarrow> int \<Rightarrow> js_object \<Rightarrow> js_error + jsval" where
  "resolve_datasourceId cfg self q =
     (if truthy (js_get q ''datasource'') then
        (let dsName = (if js_get q ''datasource'' = JStr ''default''
                       then JStr (defaultDatasource cfg) else js_get q ''datasource'')
         in case datasources_get cfg (js_toString dsName) of
              None \<Rightarrow> Inl (Error (''Unknown Datasource: '' @ js_toString (js_get q ''datasource'')))
            | Some ds \<Rightarrow> Inr (member_id ds))
      else Inr (JNum self))"

text \<open>\<^verbatim>\<open>intervalMs\<close> and \<^verbatim>\<open>maxDataPoints\<close> of the request as property values: an absent one
  is \<^verbatim>\<open>undefined\<close>.\<close>

definition opt_num :: "int option \<Rightarrow> jsval" where
  "opt_num x = (case x of None \<Rightarrow> JUndefined | Some n \<Rightarrow> JNum n)"

text \<open>
  Lines 69--93, the function mapped over the targets. Its result is the list of the calls
  of \<^verbatim>\<open>applyTemplateVariables\<close> it made (the query and the scoped variables passed), and
  the entry of the payload or the error thrown.
\<close>

definition query_entry ::
  "Config \<Rightarrow> DataSourceWithBackend \<Rightarrow> ('rr, 'tz) DataQueryRequest \<Rightarrow> js_object
     \<Rightarrow> (js_object \<times> js_object) list \<times> (js_error + js_object)" where
  "query_entry cfg this request q =
     (if js_get q ''datasource'' = JStr ExpressionDatasourceID then
        ([], Inr (spread q [(''datasourceId'', JNum (this_id this)), (''orgId'', JNum (orgId cfg))]))
      else
        (case resolve_datasourceId cfg (this_id this) q of
           Inl e \<Rightarrow> ([], Inl e)
         | Inr datasourceId \<Rightarrow>
             ([(q, scopedVars request)],
              Inr (spread (applyTemplateVariables this q (scopedVars request))
                     [(''datasourceId'', datasourceId),
                      (''intervalMs'', opt_num (intervalMs request)),
                      (''maxDataPoints'', opt_num (maxDataPoints request)),
                      (''orgId'', JNum (orgId cfg))]))))"

text \<open>\<^verbatim>\<open>Array.prototype.map\<close> with a function that may throw: the elements are taken in
  order, and the first error ends the loop.\<close>

fun js_map ::
  "('a \<Rightarrow> 'c list \<times> (js_error + 'b)) \<Rightarrow> 'a list \<Rightarrow> 'c list \<times> (js_error + 'b list)" where
  "js_map f [] = ([], Inr [])"
| "js_map f (x # xs) =
     (case f x of
        (cs, Inl e) \<Rightarrow> (cs, Inl e)
      | (cs, Inr y) \<Rightarrow>
          (case js_map f xs of
             (cs', Inl e) \<Rightarrow> (cs @ cs', Inl e)
           | (cs', Inr ys) \<Rightarrow> (cs @ cs', Inr (y # ys))))"

text \<open>Lines 65--68: the targets that \<^verbatim>\<open>filterQuery\<close> keeps, all of them when the hook is
  not defined.\<close>

definition filtered_targets :: "DataSourceWithBackend \<Rightarrow> ('rr, 'tz) DataQueryRequest \<Rightarrow> js_object list" where
  "filtered_targets this request =
     (case filterQuery this of
        None \<Rightarrow> targets request
      | Some f \<Rightarrow> filter f (targets request))"

text \<open>Lines 100--107: the body, with the range block when the request has a range.\<close>

definition make_body :: "js_object list \<Rightarrow> 'rr TimeRange option \<Rightarrow> 'rr Body" where
  "make_body qs rng =
     (case rng of
        None \<Rightarrow> \<lparr>queries = qs, body_range = None, body_from = None, body_to = None\<rparr>
      | Some r \<Rightarrow>
          \<lparr>queries = qs, body_range = Some r,
           body_from = Some (number_toString (valueOf (range_from r))),
           body_to = Some (number_toString (valueOf (range_to r)))\<rparr>)"

text \<open>
  How \<^verbatim>\<open>query\<close> ends: it throws before it returns an observable, or the observable emits
  one response and completes, or the observable fails with an error value.
\<close>

datatype ('raw, 'rsp) QueryResult = Thrown js_error | Emitted 'rsp | Errored 'raw

text \<open>What a call of \<^verbatim>\<open>query\<close> did: the calls of \<^verbatim>\<open>applyTemplateVariables\<close>, the calls of
  \<^verbatim>\<open>fetch\<close>, and how it ended.\<close>

record ('rr, 'raw, 'rsp) Outcome =
  hook_calls :: "(js_object \<times> js_object) list"
  fetch_calls :: "'rr FetchOptions list"
  result :: "('raw, 'rsp) QueryResult"

text \<open>
  Lines 116--123: \<^verbatim>\<open>pipe(map(toDataQueryResponse), catchError(err => of(toDataQueryResponse(err))))\<close>
  on the observable of \<^verbatim>\<open>fetch\<close>. An error, of the transport or thrown by the decoding of
  the reply, is decoded in turn; what the decoding of an error throws is the error of the
  resulting observable.
\<close>

definition decode_piped ::
  "('raw \<Rightarrow> 'raw + 'rsp) \<Rightarrow> 'raw FetchResult \<Rightarrow> ('raw, 'rsp) QueryResult" where
  "decode_piped decode settled =
     (let caught = (\<lambda>err. case decode err of Inr r \<Rightarrow> Emitted r | Inl e \<Rightarrow> Errored e)
      in case settled of
           Next rsp \<Rightarrow> (case decode rsp of Inr r \<Rightarrow> Emitted r | Inl e \<Rightarrow> caught e)
         | Failed err \<Rightarrow> caught err)"

definition query ::
  "('rr, 'raw, 'f, 'err, 'ev) Env \<Rightarrow> DataSourceWithBackend \<Rightarrow> ('rr, 'tz) DataQueryRequest
     \<Rightarrow> ('rr, 'raw, ('f, 'err) DataQueryResponse) Outcome" where
  "query env this request =
     (case js_map (query_entry (config env) this request) (filtered_targets this request) of
        (hc, Inl e) \<Rightarrow> \<lparr>hook_calls = hc, fetch_calls = [], result = Thrown e\<rparr>
      | (hc, Inr qs) \<Rightarrow>
          if qs = [] then \<lparr>hook_calls = hc, fetch_calls = [], result = Emitted (Frames [])\<rparr>
          else
            (let opts = \<lparr>url = ''/api/ds/query'', http_method = ''POST'',
                         fetch_data = make_body qs (range' request),
                         fetch_requestId = requestId request\<rparr>
             in \<lparr>hook_calls = hc, fetch_calls = [opts],
                 result = decode_piped (toDataQueryResponse env) (fetch env opts)\<rparr>))"

section \<open>\<^verbatim>\<open>annotationQuery\<close>\<close>

text \<open>
  The fields of an \<^verbatim>\<open>AnnotationQueryRequest\<close> that the two listings of
  \<^verbatim>\<open>annotationQuery\<close> read: \<^verbatim>\<open>range\<close>, \<^verbatim>\<open>rangeRaw\<close>, \<^verbatim>\<open>interval\<close>, \<^verbatim>\<open>intervalMs\<close>,
  \<^verbatim>\<open>maxDataPoints\<close>, \<^verbatim>\<open>app\<close>, \<^verbatim>\<open>dashboard.timezone\<close>, \<^verbatim>\<open>annotation.enable\<close>, the inline
  query \<^verbatim>\<open>annotation.annotation\<close> and \<^verbatim>\<open>isEditor\<close>. An absent field is \<open>None\<close>.
\<close>

record ('rr, 'tz) AnnotationQueryRequest =
  anno_range :: "'rr TimeRange option"
  anno_rangeRaw :: "'rr option"
  anno_interval :: "string option"
  anno_intervalMs :: "int option"
  anno_maxDataPoints :: "int option"
  anno_app :: "string option"
  dashboard_timezone :: "'tz option"
  annotation_enable :: bool
  annotation_annotation :: "js_object option"
  isEditor :: bool

text \<open>How the promise of \<^verbatim>\<open>annotationQuery\<close> settles: with a list of events, or rejected
  with an error thrown by \<^verbatim>\<open>query\<close> or with the error of its observable.\<close>

datatype ('raw, 'ev) Promise = Resolved "'ev list" | Rejected "js_error + 'raw"

text \<open>What a call of \<^verbatim>\<open>annotationQuery\<close> did: the calls of \<^verbatim>\<open>fetch\<close>, how the promise
  settled, and the value written to \<^verbatim>\<open>window.lastAnnotationQuery\<close>, if any.\<close>

record ('rr, 'raw, 'ev) AnnotationOutcome =
  anno_fetch_calls :: "'rr FetchOptions list"
  promise :: "('raw, 'ev) Promise"
  window_lastAnnotationQuery :: "'ev list option"

definition resolved_empty :: "('rr, 'raw, 'ev) AnnotationOutcome" where
  "resolved_empty = \<lparr>anno_fetch_calls = [], promise = Resolved [], window_lastAnnotationQuery = None\<rparr>"

subsection \<open>The first listing (lines 159--189)\<close>

text \<open>What \<^verbatim>\<open>prepareAnnotationQuery\<close> returns in the first listing: \<^verbatim>\<open>{ query, processor? }\<close>.\<close>

record ('f, 'err, 'ev) Prepared =
  prepared_query :: "js_object option"
  processor :: "(('f, 'err) DataQueryResponse \<Rightarrow> 'ev list) option"

text \<open>
  Lines 169--178: \<^verbatim>\<open>{...rest, requestId, startTime, scopedVars: {}, timezone, targets}\<close>,
  where \<^verbatim>\<open>rest\<close> is the request without its \<^verbatim>\<open>annotation\<close>.
\<close>

definition annotation_request ::
  "int \<Rightarrow> ('rr, 'tz) AnnotationQueryRequest \<Rightarrow> js_object \<Rightarrow> ('rr, 'tz) DataQueryRequest" where
  "annotation_request startTime' options query' =
     \<lparr>requestId = ''anno-'' @ number_toString startTime',
      interval = anno_interval options,
      intervalMs = anno_intervalMs options,
      maxDataPoints = anno_maxDataPoints options,
      range' = anno_range options,
      rangeRaw = anno_rangeRaw options,
      scopedVars = [],
      targets = [query'],
      timezone = dashboard_timezone options,
      app = anno_app options,
      startTime = Some startTime'\<rparr>"

definition annotationQuery ::
  "('rr, 'raw, 'f, 'err, 'ev) Env \<Rightarrow> DataSourceWithBackend
     \<Rightarrow> (('rr, 'tz) AnnotationQueryRequest \<Rightarrow> ('f, 'err, 'ev) Prepared) option
     \<Rightarrow> ('rr, 'tz) AnnotationQueryRequest \<Rightarrow> ('rr, 'raw, 'ev) AnnotationOutcome" where
  "annotationQuery env this prepareAnnotationQuery options =
     (case prepareAnnotationQuery of
        None \<Rightarrow> resolved_empty
      | Some prepare \<Rightarrow>
          if \<not> annotation_enable options then resolved_empty
          else
            (let prepared = prepare options in
             case prepared_query prepared of
               None \<Rightarrow> resolved_empty
             | Some query' \<Rightarrow>
                 (let out = query env this (annotation_request (now env) options query')
                  in \<lparr>anno_fetch_calls = fetch_calls out,
                      promise =
                        (case result out of
                           Thrown e \<Rightarrow> Rejected (Inl e)
                         | Errored x \<Rightarrow> Rejected (Inr x)
                         | Emitted rsp \<Rightarrow>
                             (case data rsp of
                                Some (frame # _) \<Rightarrow>
                                  (case processor prepared of
                                     Some process \<Rightarrow> Resolved (process rsp)
                                   | None \<Rightarrow> Resolved (getAnnotationsFromFrame env frame))
                              | _ \<Rightarrow> Resolved [])),
                      window_lastAnnotationQuery = None\<rparr>)))"

subsection \<open>The second listing (lines 392--426)\<close>

text \<open>\<^verbatim>\<open>x || d\<close> on an optional string and on an optional number.\<close>

definition or_string :: "string option \<Rightarrow> string \<Rightarrow> string" where
  "or_string x d = (case x of None \<Rightarrow> d | Some s \<Rightarrow> if truthy (JStr s) then s else d)"

definition or_number :: "int option \<Rightarrow> int \<Rightarrow> int" where
  "or_number x d = (case x of None \<Rightarrow> d | Some n \<Rightarrow> if truthy (JNum n) then n else d)"

text \<open>Lines 402--413.\<close>

definition annotation_request2 ::
  "int \<Rightarrow> ('rr, 'tz) AnnotationQueryRequest \<Rightarrow> js_object \<Rightarrow> ('rr, 'tz) DataQueryRequest" where
  "annotation_request2 startTime' options query' =
     \<lparr>requestId = ''anno-'' @ number_toString startTime',
      interval = Some (or_string (anno_interval options) ''1m''),
      intervalMs = Some (or_number (anno_intervalMs options) 60000),
      maxDataPoints = None,
      range' = anno_range options,
      rangeRaw = anno_rangeRaw options,
      scopedVars = [],
      targets = [query'],
      timezone = dashboard_timezone options,
      app = Some ''dash-anno'',
      startTime = Some startTime'\<rparr>"

text \<open>Lines 393--395: the query of the hook when the hook is defined, the inline query
  \<^verbatim>\<open>options.annotation.annotation\<close> otherwise.\<close>

definition annotation_query2 ::
  "(('rr, 'tz) AnnotationQueryRequest \<Rightarrow> js_object option) option
     \<Rightarrow> ('rr, 'tz) AnnotationQueryRequest \<Rightarrow> js_object option" where
  "annotation_query2 prepareAnnotationQuery options =
     (case prepareAnnotationQuery of
        Some prepare \<Rightarrow> prepare options
      | None \<Rightarrow> annotation_annotation options)"

definition annotationQuery2 ::
  "('rr, 'raw, 'f, 'err, 'ev) Env \<Rightarrow> DataSourceWithBackend
     \<Rightarrow> (('rr, 'tz) AnnotationQueryRequest \<Rightarrow> js_object option) option
     \<Rightarrow> ('rr, 'tz) AnnotationQueryRequest \<Rightarrow> ('rr, 'raw, 'ev) AnnotationOutcome" where
  "annotationQuery2 env this prepareAnnotationQuery options =
     (case annotation_query2 prepareAnnotationQuery options of
        None \<Rightarrow> resolved_empty
      | Some query' \<Rightarrow>
          if \<not> annotation_enable options then resolved_empty
          else
            (let out = query env this (annotation_request2 (now env) options query')
             in case result out of
                  Thrown e \<Rightarrow>
                    \<lparr>anno_fetch_calls = fetch_calls out, promise = Rejected (Inl e),
                     window_lastAnnotationQuery = None\<rparr>
                | Errored x \<Rightarrow>
                    \<lparr>anno_fetch_calls = fetch_calls out, promise = Rejected (Inr x),
                     window_lastAnnotationQuery = None\<rparr>
                | Emitted rsp \<Rightarrow>
                    (case data rsp of
                       Some (frame # _) \<Rightarrow>
                         \<lparr>anno_fetch_calls = fetch_calls out,
                          promise = Resolved (getAnnotationsFromFrame env frame),
                          window_lastAnnotationQuery =
                            (if isEditor options then Some (getAnnotationsFromFrame env frame) else None)\<rparr>
                     | _ \<Rightarrow>
                         \<lparr>anno_fetch_calls = fetch_calls out, promise = Resolved [],
                          window_lastAnnotationQuery = None\<rparr>)))"

section \<open>Example inputs\<close>

definition ex_config :: Config where
  "ex_config = \<lparr>orgId = 1, defaultDatasource = ''prom'',
                datasources = [''prom'' \<mapsto> \<lparr>ds_id = 5\<rparr>, ''loki'' \<mapsto> \<lparr>ds_id = 6\<rparr>]\<rparr>"

text \<open>A transport that fails with a network error, and a decoding routine that makes a
  failure of it and one frame of any other reply.\<close>

definition ex_decode :: "string \<Rightarrow> string + (string, string) DataQueryResponse" where
  "ex_decode raw = Inr (if raw = ''network error'' then Failure raw else Frames [raw])"

definition ex_env_down :: "(unit, string, string, string, string) Env" where
  "ex_env_down = \<lparr>config = ex_config, fetch = (\<lambda>opts. Failed ''network error''),
                  toDataQueryResponse = ex_decode,
                  getAnnotationsFromFrame = (\<lambda>frame. [frame]), now = 1600000000000\<rparr>"

text \<open>A transport that replies.\<close>

definition ex_env_up :: "(unit, string, string, string, string) Env" where
  "ex_env_up = \<lparr>config = ex_config, fetch = (\<lambda>opts. Next ''reply''),
                toDataQueryResponse = ex_decode,
                getAnnotationsFromFrame = (\<lambda>frame. [frame]), now = 1600000000000\<rparr>"

definition ex_this :: DataSourceWithBackend where
  "ex_this = \<lparr>this_id = 7, filterQuery = None,
              applyTemplateVariables = applyTemplateVariables_default\<rparr>"

text \<open>An instance whose \<^verbatim>\<open>filterQuery\<close> drops the hidden queries.\<close>

definition ex_this_filter :: DataSourceWithBackend where
  "ex_this_filter = \<lparr>this_id = 7, filterQuery = Some (\<lambda>q. js_get q ''hide'' \<noteq> JBool True),
                     applyTemplateVariables = applyTemplateVariables_default\<rparr>"

definition ex_request :: "js_object list \<Rightarrow> (unit, string) DataQueryRequest" where
  "ex_request ts = \<lparr>requestId = ''Q100'', interval = Some ''30s'', intervalMs = Some 30000,
                    maxDataPoints = Some 500,
                    range' = Some \<lparr>range_from = DateTime 1000, range_to = DateTime 2000, range_raw = ()\<rparr>,
                    rangeRaw = None, scopedVars = [(''v'', JStr ''x'')], targets = ts,
                    timezone = Some ''utc'', app = None, startTime = None\<rparr>"

definition ex_options :: "(unit, string) AnnotationQueryRequest" where
  "ex_options = \<lparr>anno_range = Some \<lparr>range_from = DateTime 1000, range_to = DateTime 2000, range_raw = ()\<rparr>,
                 anno_rangeRaw = Some (), anno_interval = None, anno_intervalMs = None,
                 anno_maxDataPoints = None, anno_app = None, dashboard_timezone = Some ''utc'',
                 annotation_enable = True, annotation_annotation = None, isEditor = False\<rparr>"

text \<open>A target without a backend reference, its entry in the payload, and the call of
  \<^verbatim>\<open>fetch\<close> that a request with this target alone makes.\<close>

definition ex_target :: js_object where
  "ex_target = [(''refId'', JStr ''A'')]"

definition ex_entry :: js_object where
  "ex_entry = [(''refId'', JStr ''A''), (''datasourceId'', JNum 7), (''intervalMs'', JNum 30000),
               (''maxDataPoints'', JNum 500), (''orgId'', JNum 1)]"

definition ex_opts :: "unit FetchOptions" where
  "ex_opts = \<lparr>url = ''/api/ds/query'', http_method = ''POST'',
              fetch_data = \<lparr>queries = [ex_entry],
                            body_range = Some \<lparr>range_from = DateTime 1000, range_to = DateTime 2000, range_raw = ()\<rparr>,
                            body_from = Some ''1000'', body_to = Some ''2000''\<rparr>,
              fetch_requestId = ''Q100''\<rparr>"

text \<open>A hidden target, a target of the data source \<^verbatim>\<open>loki\<close>, an expression, and the entries
  of the last two.\<close>

definition ex_hidden :: js_object where
  "ex_hidden = [(''refId'', JStr ''H''), (''hide'', JBool True)]"

definition ex_loki :: js_object where
  "ex_loki = [(''refId'', JStr ''B''), (''datasource'', JStr ''loki'')]"

definition ex_expr :: js_object where
  "ex_expr = [(''refId'', JStr ''C''), (''datasource'', JStr ''__expr__''), (''intervalMs'', JNum 5)]"

definition ex_loki_entry :: js_object where
  "ex_loki_entry = [(''refId'', JStr ''B''), (''datasource'', JStr ''loki''), (''datasourceId'', JNum 6),
                    (''intervalMs'', JNum 30000), (''maxDataPoints'', JNum 500), (''orgId'', JNum 1)]"

definition ex_expr_entry :: js_object where
  "ex_expr_entry = [(''refId'', JStr ''C''), (''datasource'', JStr ''__expr__''), (''intervalMs'', JNum 5),
                    (''datasourceId'', JNum 7), (''orgId'', JNum 1)]"

definition ex_opts3 :: "unit FetchOptions" where
  "ex_opts3 = \<lparr>url = ''/api/ds/query'', http_method = ''POST'',
               fetch_data = \<lparr>queries = [ex_loki_entry, ex_expr_entry],
                             body_range = Some \<lparr>range_from = DateTime 1000, range_to = DateTime 2000, range_raw = ()\<rparr>,
                             body_from = Some ''1000'', body_to = Some ''2000''\<rparr>,
               fetch_requestId = ''Q100''\<rparr>"

text \<open>A target that names a data source missing from the table, and one that names the
  default data source.\<close>

definition ex_nope :: js_object where
  "ex_nope = [(''refId'', JStr ''N''), (''datasource'', JStr ''nope'')]"

definition ex_default :: js_object where
  "ex_default = [(''refId'', JStr ''D''), (''datasource'', JStr ''default'')]"

text \<open>A target that names \<^verbatim>\<open>toString\<close>, which is no entry of the table, its entry in the
  payload, and the call of \<^verbatim>\<open>fetch\<close> that a request with this target alone makes.\<close>

definition ex_toString :: js_object where
  "ex_toString = [(''refId'', JStr ''T''), (''datasource'', JStr ''toString'')]"

definition ex_toString_entry :: js_object where
  "ex_toString_entry = [(''refId'', JStr ''T''), (''datasource'', JStr ''toString''),
                        (''datasourceId'', JUndefined), (''intervalMs'', JNum 30000),
                        (''maxDataPoints'', JNum 500), (''orgId'', JNum 1)]"

definition ex_opts_toString :: "unit FetchOptions" where
  "ex_opts_toString = \<lparr>url = ''/api/ds/query'', http_method = ''POST'',
               fetch_data = \<lparr>queries = [ex_toString_entry],
                             body_range = Some \<lparr>range_from = DateTime 1000, range_to = DateTime 2000, range_raw = ()\<rparr>,
                             body_from = Some ''1000'', body_to = Some ''2000''\<rparr>,
               fetch_requestId = ''Q100''\<rparr>"

text \<open>Hooks \<^verbatim>\<open>prepareAnnotationQuery\<close> of the two listings that yield the target without a
  backend reference, and the calls of \<^verbatim>\<open>fetch\<close> that the two listings of
  \<^verbatim>\<open>annotationQuery\<close> then make.\<close>

definition ex_prepare :: "(unit, string) AnnotationQueryRequest \<Rightarrow> (string, string, string) Prepared" where
  "ex_prepare options = \<lparr>prepared_query = Some ex_target, processor = None\<rparr>"

definition ex_prepare2 :: "(unit, string) AnnotationQueryRequest \<Rightarrow> js_object option" where
  "ex_prepare2 options = Some ex_target"

definition ex_anno_opts :: "unit FetchOptions" where
  "ex_anno_opts = \<lparr>url = ''/api/ds/query'', http_method = ''POST'',
                   fetch_data = \<lparr>queries = [ [(''refId'', JStr ''A''), (''datasourceId'', JNum 7),
                                              (''intervalMs'', JUndefined),
                                              (''maxDataPoints'', JUndefined), (''orgId'', JNum 1)] ],
                                 body_range = Some \<lparr>range_from = DateTime 1000, range_to = DateTime 2000, range_raw = ()\<rparr>,
                                 body_from = Some ''1000'', body_to = Some ''2000''\<rparr>,
                   fetch_requestId = ''anno-1600000000000''\<rparr>"

definition ex_anno_opts2 :: "unit FetchOptions" where
  "ex_anno_opts2 = \<lparr>url = ''/api/ds/query'', http_method = ''POST'',
                    fetch_data = \<lparr>queries = [ [(''refId'', JStr ''A''), (''datasourceId'', JNum 7),
                                               (''intervalMs'', JNum 60000),
                                               (''maxDataPoints'', JUndefined), (''orgId'', JNum 1)] ],
                                  body_range = Some \<lparr>range_from = DateTime 1000, range_to = DateTime 2000, range_raw = ()\<rparr>,
                                  body_from = Some ''1000'', body_to = Some ''2000''\<rparr>,
                    fetch_requestId = ''anno-1600000000000''\<rparr>"

section \<open>Predicates of the statements\<close>

text \<open>The name that a target's reference stands for: \<^verbatim>\<open>config.defaultDatasource\<close> for
  \<^verbatim>\<open>'default'\<close>, the reference itself otherwise.\<close>

definition reference_name :: "Config \<Rightarrow> js_object \<Rightarrow> string" where
  "reference_name cfg q =
     (if js_get q ''datasource'' = JStr ''default'' then defaultDatasource cfg
      else js_toString (js_get q ''datasource''))"

text \<open>
  A target has an unknown backend reference: it is not an expression, its
  \<^verbatim>\<open>datasource\<close> is set (truthy), and the name it stands for is no entry of the table
  \<^verbatim>\<open>config.datasources\<close>.
\<close>

definition unknown_reference :: "Config \<Rightarrow> js_object \<Rightarrow> bool" where
  "unknown_reference cfg q \<longleftrightarrow>
     js_get q ''datasource'' \<noteq> JStr ExpressionDatasourceID
   \<and> truthy (js_get q ''datasource'')
   \<and> datasources cfg (reference_name cfg q) = None"

text \<open>
  A target has an unresolved backend reference: it is not an expression, its
  \<^verbatim>\<open>datasource\<close> is set (truthy), and the property access
  \<^verbatim>\<open>config.datasources[name]\<close> finds nothing under the name it stands for, neither an
  entry of the table nor an inherited member. These are the targets at which \<^verbatim>\<open>query\<close>
  throws.
\<close>

definition unresolved_reference :: "Config \<Rightarrow> js_object \<Rightarrow> bool" where
  "unresolved_reference cfg q \<longleftrightarrow>
     js_get q ''datasource'' \<noteq> JStr ExpressionDatasourceID
   \<and> truthy (js_get q ''datasource'')
   \<and> datasources_get cfg (reference_name cfg q) = None"

text \<open>A target is an expression.\<close>

definition is_expression :: "js_object \<Rightarrow> bool" where
  "is_expression q \<longleftrightarrow> js_get q ''datasource'' = JStr ExpressionDatasourceID"

section \<open>Properties of \<^verbatim>\<open>query\<close>\<close>

lemma js_map_Inr:
  "js_map f xs = (cs, Inr ys) \<Longrightarrow>
     map (\<lambda>x. snd (f x)) xs = map Inr ys \<and> cs = concat (map (\<lambda>x. fst (f x)) xs)"
proof (induction xs arbitrary: cs ys)
  case Nil
  then show ?case by simp
next
  case (Cons x xs)
  then show ?case
    by (auto split: prod.splits sum.splits)
qed

lemma query_dispatched:
  assumes "fetch_calls (query env this request) = [opts]"
  shows "\<exists>hc qs. js_map (query_entry (config env) this request) (filtered_targets this request) = (hc, Inr qs)
           \<and> qs \<noteq> []
           \<and> opts = \<lparr>url = ''/api/ds/query'', http_method = ''POST'',
                      fetch_data = make_body qs (range' request),
                      fetch_requestId = requestId request\<rparr>
           \<and> hook_calls (query env this request) = hc
           \<and> result (query env this request) = decode_piped (toDataQueryResponse env) (fetch env opts)"
  using assms
  by (auto simp: query_def Let_def split: prod.splits sum.splits if_splits)

text \<open>
  C1. When no target is left after the filter (the request has none, or
  \<^verbatim>\<open>filterQuery\<close> rejects every one), \<^verbatim>\<open>query\<close> emits the successful response
  \<^verbatim>\<open>{ data: [] }\<close>, and it has called neither \<^verbatim>\<open>fetch\<close> nor \<^verbatim>\<open>applyTemplateVariables\<close>.
\<close>

theorem query_empty_targets:
  assumes "filtered_targets this request = []"
  shows "query env this request =
           \<lparr>hook_calls = [], fetch_calls = [], result = Emitted (Frames [])\<rparr>"
  using assms by (simp add: query_def)

theorem query_empty_targets_witness:
  "filtered_targets ex_this_filter (ex_request [ [(''refId'', JStr ''A''), (''hide'', JBool True)] ]) = []
   \<and> query ex_env_up ex_this_filter (ex_request [ [(''refId'', JStr ''A''), (''hide'', JBool True)] ])
       = \<lparr>hook_calls = [], fetch_calls = [], result = Emitted (Frames [])\<rparr>"
proof -
  have empty: "filtered_targets ex_this_filter
                 (ex_request [ [(''refId'', JStr ''A''), (''hide'', JBool True)] ]) = []"
    by (simp add: filtered_targets_def ex_this_filter_def ex_request_def js_get_def)
  from query_empty_targets [OF empty, of ex_env_up] empty show ?thesis by simp
qed

subsection \<open>Evaluation at the example inputs\<close>

lemmas ex_defs =
  ex_env_down_def ex_env_up_def ex_this_def ex_this_filter_def ex_request_def ex_config_def
  ex_decode_def ex_target_def ex_entry_def ex_opts_def ex_hidden_def ex_loki_def ex_expr_def
  ex_loki_entry_def ex_expr_entry_def ex_opts3_def ex_nope_def ex_default_def
  ex_options_def ex_prepare_def ex_prepare2_def ex_anno_opts_def ex_anno_opts2_def
  ex_toString_def ex_toString_entry_def ex_opts_toString_def

lemmas query_defs =
  query_def filtered_targets_def query_entry_def resolve_datasourceId_def datasources_get_def
  Object_prototype_keys_def js_get_def opt_num_def
  applyTemplateVariables_default_def ExpressionDatasourceID_def make_body_def
  number_toString_def digits10.simps digit_char_def decode_piped_def

lemma ex_query_down:
  "query ex_env_down ex_this (ex_request [ex_target])
     = \<lparr>hook_calls = [(ex_target, [(''v'', JStr ''x'')])], fetch_calls = [ex_opts],
        result = Emitted (Failure ''network error'')\<rparr>"
  by (simp add: query_defs ex_defs)

lemma ex_query_up3:
  "query ex_env_up ex_this_filter (ex_request [ex_hidden, ex_loki, ex_expr])
     = \<lparr>hook_calls = [(ex_loki, [(''v'', JStr ''x'')])], fetch_calls = [ex_opts3],
        result = Emitted (Frames [''reply''])\<rparr>"
  by (simp add: query_defs ex_defs)

subsection \<open>The dispatched payload\<close>

lemma decode_piped_Failed:
  "decode err = Inr rsp \<Longrightarrow> decode_piped decode (Failed err) = Emitted rsp"
  by (simp add: decode_piped_def)

lemma decode_piped_Next:
  "decode reply = Inr rsp \<Longrightarrow> decode_piped decode (Next reply) = Emitted rsp"
  by (simp add: decode_piped_def)

lemma dispatched_result:
  assumes "fetch_calls (query env this request) = [opts]"
  shows "result (query env this request) = decode_piped (toDataQueryResponse env) (fetch env opts)"
  using query_dispatched [OF assms] by blast

lemma dispatched_body:
  assumes "fetch_calls (query env this request) = [opts]"
  shows "\<exists>qs. fetch_data opts = make_body qs (range' request)
           \<and> map Inr qs = map (\<lambda>q. snd (query_entry (config env) this request q))
                             (filtered_targets this request)"
proof -
  from query_dispatched [OF assms] obtain hc qs where
    mapped: "js_map (query_entry (config env) this request) (filtered_targets this request) = (hc, Inr qs)"
    and opts: "opts = \<lparr>url = ''/api/ds/query'', http_method = ''POST'',
             fetch_data = make_body qs (range' request), fetch_requestId = requestId request\<rparr>"
    by blast
  from opts have "fetch_data opts = make_body qs (range' request)" by simp
  with js_map_Inr [OF mapped] show ?thesis by auto
qed

lemma queries_make_body: "queries (make_body qs rng) = qs"
  by (cases rng) (simp_all add: make_body_def)

text \<open>
  C2. A payload has been dispatched (\<^verbatim>\<open>fetch\<close> was called with \<open>opts\<close>). When the
  transport fails with \<open>err\<close>, the observable of \<^verbatim>\<open>query\<close> emits what
  \<^verbatim>\<open>toDataQueryResponse\<close> makes of \<open>err\<close>; when the transport replies, it emits what
  the same routine makes of the reply. In both cases the caller receives a
  \<^verbatim>\<open>DataQueryResponse\<close>; \<^verbatim>\<open>query\<close> has neither thrown nor failed its observable.
  (\<^verbatim>\<open>toDataQueryResponse\<close> is given from outside; the statement is about the values on
  which it returns.)
\<close>

theorem query_transport_failure_decoded:
  assumes dispatched: "fetch_calls (query env this request) = [opts]"
  shows "(fetch env opts = Failed err \<and> toDataQueryResponse env err = Inr rsp
            \<longrightarrow> result (query env this request) = Emitted rsp)
       \<and> (fetch env opts = Next reply \<and> toDataQueryResponse env reply = Inr rsp
            \<longrightarrow> result (query env this request) = Emitted rsp)"
  using dispatched_result [OF dispatched]
  by (auto simp: decode_piped_Failed decode_piped_Next)

theorem query_transport_failure_decoded_witness:
  "fetch_calls (query ex_env_down ex_this (ex_request [ex_target])) = [ex_opts]
   \<and> fetch ex_env_down ex_opts = Failed ''network error''
   \<and> toDataQueryResponse ex_env_down ''network error'' = Inr (Failure ''network error'')
   \<and> result (query ex_env_down ex_this (ex_request [ex_target])) = Emitted (Failure ''network error'')"
proof -
  have dispatched: "fetch_calls (query ex_env_down ex_this (ex_request [ex_target])) = [ex_opts]"
    by (simp add: ex_query_down)
  have failed: "fetch ex_env_down ex_opts = Failed ''network error''"
    by (simp add: ex_env_down_def)
  have decoded: "toDataQueryResponse ex_env_down ''network error'' = Inr (Failure ''network error'')"
    by (simp add: ex_env_down_def ex_decode_def)
  from query_transport_failure_decoded [OF dispatched, of "''network error''" "Failure ''network error''"]
    dispatched failed decoded
  show ?thesis by simp
qed

subsection \<open>The decimal string of a number\<close>

text \<open>Two numbers with the same string are the same number: the string that
  \<^verbatim>\<open>toString()\<close> makes of an epoch stands for that epoch alone.\<close>

lemma digit_cases: "d < 10 \<Longrightarrow> d \<in> {0, 1, 2, 3, 4, 5, 6, 7, 8, 9::nat}"
  by auto

lemma digit_char_inj: "d < 10 \<Longrightarrow> e < 10 \<Longrightarrow> digit_char d = digit_char e \<Longrightarrow> d = e"
  by (drule digit_cases, drule digit_cases) (auto simp: digit_char_def)

lemma digit_char_not_minus: "d < 10 \<Longrightarrow> digit_char d \<noteq> CHR ''-''"
  by (drule digit_cases) (auto simp: digit_char_def)

lemma digits10_nonempty: "digits10 n \<noteq> []"
  by (subst digits10.simps) simp

lemma digits10_no_minus: "CHR ''-'' \<notin> set (digits10 n)"
proof (induction n rule: digits10.induct)
  case (1 n)
  show ?case
  proof (cases "n < 10")
    case True
    then show ?thesis
      using digit_char_not_minus [of n] by (subst digits10.simps) auto
  next
    case False
    with "1.IH" digit_char_not_minus [of "n mod 10"] show ?thesis
      by (subst digits10.simps) auto
  qed
qed

lemma digits10_inj: "digits10 m = digits10 n \<Longrightarrow> m = n"
proof (induction m arbitrary: n rule: digits10.induct)
  case (1 m)
  show ?case
  proof (cases "m < 10")
    case m: True
    show ?thesis
    proof (cases "n < 10")
      case True
      with m "1.prems" show ?thesis
        by (simp add: digits10.simps [of m] digits10.simps [of n] digit_char_inj)
    next
      case False
      with m "1.prems" digits10_nonempty [of "n div 10"] show ?thesis
        by (simp add: digits10.simps [of m] digits10.simps [of n])
    qed
  next
    case m: False
    show ?thesis
    proof (cases "n < 10")
      case True
      with m "1.prems" digits10_nonempty [of "m div 10"] show ?thesis
        by (simp add: digits10.simps [of m] digits10.simps [of n])
    next
      case False
      with m "1.prems" have eq: "digits10 (m div 10) = digits10 (n div 10)"
        and last: "digit_char (m mod 10) = digit_char (n mod 10)"
        by (simp_all add: digits10.simps [of m] digits10.simps [of n])
      from "1.IH" [OF m eq] have "m div 10 = n div 10" .
      moreover from last have "m mod 10 = n mod 10"
        by (simp add: digit_char_inj)
      ultimately show ?thesis
        by (metis div_mult_mod_eq)
    qed
  qed
qed

lemma number_toString_inj: "number_toString a = number_toString b \<Longrightarrow> a = b"
proof -
  assume eq: "number_toString a = number_toString b"
  have no_minus: "CHR ''-'' # xs \<noteq> digits10 n" for xs n
    using digits10_no_minus [of n] by (metis list.set_intros(1))
  show ?thesis
  proof (cases "a < 0")
    case a: True
    show ?thesis
    proof (cases "b < 0")
      case True
      with a eq have "digits10 (nat (- a)) = digits10 (nat (- b))"
        by (simp add: number_toString_def)
      from digits10_inj [OF this] a True show ?thesis by simp
    next
      case False
      with a eq no_minus show ?thesis by (simp add: number_toString_def)
    qed
  next
    case a: False
    show ?thesis
    proof (cases "b < 0")
      case True
      with a eq no_minus [of "digits10 (nat (- b))" "nat a"] show ?thesis
        by (simp add: number_toString_def)
    next
      case False
      with a eq have "digits10 (nat a) = digits10 (nat b)"
        by (simp add: number_toString_def)
      from digits10_inj [OF this] a False show ?thesis by simp
    qed
  qed
qed


text \<open>
  C8. In the body that \<^verbatim>\<open>query\<close> sends, \<^verbatim>\<open>range\<close>, \<^verbatim>\<open>from\<close> and \<^verbatim>\<open>to\<close> are set if and
  only if the request has a range; then \<^verbatim>\<open>range\<close> is the range of the request, and
  \<^verbatim>\<open>from\<close> and \<^verbatim>\<open>to\<close> are the decimal strings of the epoch milliseconds of its two ends,
  which are the strings of no other number.
\<close>

theorem payload_range_block:
  assumes dispatched: "fetch_calls (query env this request) = [opts]"
  shows "(body_range (fetch_data opts) \<noteq> None \<longleftrightarrow> range' request \<noteq> None)
       \<and> (body_from (fetch_data opts) \<noteq> None \<longleftrightarrow> range' request \<noteq> None)
       \<and> (body_to (fetch_data opts) \<noteq> None \<longleftrightarrow> range' request \<noteq> None)
       \<and> (\<forall>r. range' request = Some r \<longrightarrow>
             body_range (fetch_data opts) = Some r
           \<and> body_from (fetch_data opts) = Some (number_toString (valueOf (range_from r)))
           \<and> body_to (fetch_data opts) = Some (number_toString (valueOf (range_to r)))
           \<and> (\<forall>n. body_from (fetch_data opts) = Some (number_toString n)
                  \<longrightarrow> n = valueOf (range_from r))
           \<and> (\<forall>n. body_to (fetch_data opts) = Some (number_toString n)
                  \<longrightarrow> n = valueOf (range_to r)))"
proof -
  from dispatched_body [OF dispatched] obtain qs where
    body: "fetch_data opts = make_body qs (range' request)" by blast
  show ?thesis
  proof (cases "range' request")
    case None
    with body show ?thesis by (simp add: make_body_def)
  next
    case (Some r)
    with body have b: "body_range (fetch_data opts) = Some r"
      "body_from (fetch_data opts) = Some (number_toString (valueOf (range_from r)))"
      "body_to (fetch_data opts) = Some (number_toString (valueOf (range_to r)))"
      by (simp_all add: make_body_def)
    have "n = valueOf (range_from r)"
      if "body_from (fetch_data opts) = Some (number_toString n)" for n
      using that b(2) number_toString_inj [of n "valueOf (range_from r)"] by simp
    moreover have "n = valueOf (range_to r)"
      if "body_to (fetch_data opts) = Some (number_toString n)" for n
      using that b(3) number_toString_inj [of n "valueOf (range_to r)"] by simp
    ultimately show ?thesis using Some b by simp
  qed
qed

theorem payload_range_block_witness:
  "fetch_calls (query ex_env_down ex_this (ex_request [ex_target])) = [ex_opts]
   \<and> range' (ex_request [ex_target])
       = Some \<lparr>range_from = DateTime 1000, range_to = DateTime 2000, range_raw = ()\<rparr>
   \<and> body_range (fetch_data ex_opts)
       = Some \<lparr>range_from = DateTime 1000, range_to = DateTime 2000, range_raw = ()\<rparr>
   \<and> body_from (fetch_data ex_opts) = Some ''1000''
   \<and> body_to (fetch_data ex_opts) = Some ''2000''"
proof -
  have dispatched: "fetch_calls (query ex_env_down ex_this (ex_request [ex_target])) = [ex_opts]"
    by (simp add: ex_query_down)
  have rng: "range' (ex_request [ex_target])
       = Some \<lparr>range_from = DateTime 1000, range_to = DateTime 2000, range_raw = ()\<rparr>"
    by (simp add: ex_request_def)
  have digits: "number_toString 1000 = ''1000''" "number_toString 2000 = ''2000''"
    by (simp_all add: number_toString_def digits10.simps digit_char_def)
  from payload_range_block [OF dispatched] rng
  have "body_range (fetch_data ex_opts)
          = Some \<lparr>range_from = DateTime 1000, range_to = DateTime 2000, range_raw = ()\<rparr>
      \<and> body_from (fetch_data ex_opts) = Some (number_toString 1000)
      \<and> body_to (fetch_data ex_opts) = Some (number_toString 2000)"
    by (metis DateTime.sel TimeRange.select_convs(1,2))
  with dispatched rng digits show ?thesis by simp
qed

text \<open>
  C9. The \<^verbatim>\<open>queries\<close> of the body that \<^verbatim>\<open>query\<close> sends are the targets of the request,
  filtered by \<^verbatim>\<open>filterQuery\<close> when it is defined, each replaced by its entry, in the order
  of the request.
\<close>

theorem payload_order:
  assumes dispatched: "fetch_calls (query env this request) = [opts]"
  shows "map Inr (queries (fetch_data opts))
           = map (\<lambda>q. snd (query_entry (config env) this request q))
               (case filterQuery this of
                  None \<Rightarrow> targets request
                | Some keep \<Rightarrow> filter keep (targets request))"
  using dispatched_body [OF dispatched]
  by (auto simp: queries_make_body filtered_targets_def)

theorem payload_order_witness:
  "fetch_calls (query ex_env_up ex_this_filter (ex_request [ex_hidden, ex_loki, ex_expr])) = [ex_opts3]
   \<and> queries (fetch_data ex_opts3) = [ex_loki_entry, ex_expr_entry]
   \<and> map Inr [ex_loki_entry, ex_expr_entry]
       = map (\<lambda>q. snd (query_entry (config ex_env_up) ex_this_filter
                          (ex_request [ex_hidden, ex_loki, ex_expr]) q))
           (case filterQuery ex_this_filter of
              None \<Rightarrow> targets (ex_request [ex_hidden, ex_loki, ex_expr])
            | Some keep \<Rightarrow> filter keep (targets (ex_request [ex_hidden, ex_loki, ex_expr])))"
proof -
  have dispatched:
    "fetch_calls (query ex_env_up ex_this_filter (ex_request [ex_hidden, ex_loki, ex_expr])) = [ex_opts3]"
    by (simp add: ex_query_up3)
  have sent: "queries (fetch_data ex_opts3) = [ex_loki_entry, ex_expr_entry]"
    by (simp add: ex_opts3_def)
  from payload_order [OF dispatched] dispatched sent
  show ?thesis by simp
qed

subsection \<open>Entries, references and the calls of the hook\<close>

lemma js_get_update:
  "js_get (AList.update k v obj) k' = (if k' = k then v else js_get obj k')"
  by (simp add: js_get_def update_conv')


lemma query_entry_unknown:
  "unresolved_reference cfg q \<Longrightarrow>
     query_entry cfg this request q
       = ([], Inl (Error (''Unknown Datasource: '' @ js_toString (js_get q ''datasource''))))"
  by (auto simp: query_entry_def unresolved_reference_def reference_name_def resolve_datasourceId_def Let_def)

lemma query_entry_isl:
  "isl (snd (query_entry cfg this request q)) \<longleftrightarrow> unresolved_reference cfg q"
  by (auto simp: query_entry_def unresolved_reference_def reference_name_def resolve_datasourceId_def Let_def
      split: option.splits)

lemma query_entry_calls:
  "fst (query_entry cfg this request q)
     = (if is_expression q \<or> unresolved_reference cfg q then [] else [(q, scopedVars request)])"
  by (auto simp: query_entry_def unresolved_reference_def reference_name_def resolve_datasourceId_def Let_def
      is_expression_def split: option.splits)

lemma js_map_takeWhile:
  assumes "\<And>x. isl (snd (f x)) \<Longrightarrow> fst (f x) = []"
  shows "fst (js_map f xs) = concat (map (\<lambda>x. fst (f x)) (takeWhile (\<lambda>x. \<not> isl (snd (f x))) xs))"
proof (induction xs)
  case Nil
  then show ?case by simp
next
  case (Cons a xs)
  show ?case
  proof (cases "f a")
    case (Pair ca ra)
    show ?thesis
    proof (cases ra)
      case (Inl e)
      with Pair assms [of a] show ?thesis by simp
    next
      case (Inr y)
      with Pair Cons.IH show ?thesis
        by (auto split: prod.splits sum.splits)
    qed
  qed
qed

lemma js_map_find:
  "snd (js_map f xs) = (case find (\<lambda>x. isl (snd (f x))) xs of
                          None \<Rightarrow> Inr (map (\<lambda>x. projr (snd (f x))) xs)
                        | Some x \<Rightarrow> Inl (projl (snd (f x))))"
proof (induction xs)
  case Nil
  then show ?case by simp
next
  case (Cons a xs)
  show ?case
  proof (cases "f a")
    case (Pair ca ra)
    with Cons.IH show ?thesis
      by (cases ra) (auto split: prod.splits sum.splits option.splits)
  qed
qed

lemma hook_calls_query:
  "hook_calls (query env this request)
     = fst (js_map (query_entry (config env) this request) (filtered_targets this request))"
  by (simp add: query_def Let_def split: prod.splits sum.splits)

lemma hook_calls_exact:
  "hook_calls (query env this request)
     = map (\<lambda>q. (q, scopedVars request))
         (filter (\<lambda>q. \<not> is_expression q)
            (takeWhile (\<lambda>q. \<not> unresolved_reference (config env) q) (filtered_targets this request)))"
proof -
  have "hook_calls (query env this request)
      = concat (map (\<lambda>q. fst (query_entry (config env) this request q))
          (takeWhile (\<lambda>q. \<not> unresolved_reference (config env) q) (filtered_targets this request)))"
    unfolding hook_calls_query
    by (subst js_map_takeWhile) (simp_all add: query_entry_isl query_entry_calls)
  also have "\<dots> = map (\<lambda>q. (q, scopedVars request))
         (filter (\<lambda>q. \<not> is_expression q)
            (takeWhile (\<lambda>q. \<not> unresolved_reference (config env) q) (filtered_targets this request)))"
  proof -
    have "concat (map (\<lambda>q. fst (query_entry (config env) this request q)) ys)
        = map (\<lambda>q. (q, scopedVars request)) (filter (\<lambda>q. \<not> is_expression q) ys)"
      if "\<forall>y \<in> set ys. \<not> unresolved_reference (config env) y" for ys
      using that by (induction ys) (simp_all add: query_entry_calls)
    moreover have "\<forall>y \<in> set (takeWhile (\<lambda>q. \<not> unresolved_reference (config env) q)
                          (filtered_targets this request)). \<not> unresolved_reference (config env) y"
      by (auto dest: set_takeWhileD)
    ultimately show ?thesis by blast
  qed
  finally show ?thesis .
qed

lemma query_unknown:
  assumes "find (unresolved_reference (config env)) (filtered_targets this request) = Some q"
  shows "result (query env this request)
           = Thrown (Error (''Unknown Datasource: '' @ js_toString (js_get q ''datasource'')))
       \<and> fetch_calls (query env this request) = []"
proof -
  from assms have unk: "unresolved_reference (config env) q"
    by (auto simp: find_Some_iff)
  have "snd (js_map (query_entry (config env) this request) (filtered_targets this request))
      = Inl (Error (''Unknown Datasource: '' @ js_toString (js_get q ''datasource'')))"
    using assms unk
    by (simp add: js_map_find query_entry_isl query_entry_unknown)
  then show ?thesis
    by (auto simp: query_def split: prod.splits sum.splits)
qed



text \<open>
  What the code does with a reference. For a target whose \<^verbatim>\<open>datasource\<close> is
  \<^verbatim>\<open>'default'\<close>, the property access is made under the name \<^verbatim>\<open>config.defaultDatasource\<close>:
  the \<^verbatim>\<open>datasourceId\<close> is the \<^verbatim>\<open>id\<close> of what is found, and the error is
  \<^verbatim>\<open>Unknown Datasource: default\<close> when nothing is found. When a target left by the filter
  has an unresolved reference, \<^verbatim>\<open>query\<close> throws
  \<^verbatim>\<open>Error('Unknown Datasource: ' + q.datasource)\<close> for the first such target, and it has
  not called \<^verbatim>\<open>fetch\<close>. An unresolved reference is an unknown one; an unknown reference
  is unresolved unless its name is a member of \<^verbatim>\<open>Object.prototype\<close>.
\<close>

lemma resolve_default:
  assumes "js_get q ''datasource'' = JStr ''default''"
  shows "resolve_datasourceId cfg self q
           = (case datasources_get cfg (defaultDatasource cfg) of
                None \<Rightarrow> Inl (Error ''Unknown Datasource: default'')
              | Some ds \<Rightarrow> Inr (member_id ds))"
  using assms by (simp add: resolve_datasourceId_def split: option.splits)

lemma unresolved_reference_thrown:
  assumes "q \<in> set (filtered_targets this request)" and "unresolved_reference (config env) q"
  shows "\<exists>q'. find (unresolved_reference (config env)) (filtered_targets this request) = Some q'
           \<and> result (query env this request)
               = Thrown (Error (''Unknown Datasource: '' @ js_toString (js_get q' ''datasource'')))
           \<and> fetch_calls (query env this request) = []"
proof -
  from assms obtain q' where
    "find (unresolved_reference (config env)) (filtered_targets this request) = Some q'"
    by (cases "find (unresolved_reference (config env)) (filtered_targets this request)")
       (auto simp: find_None_iff)
  with query_unknown [OF this] show ?thesis by blast
qed

lemma unresolved_is_unknown: "unresolved_reference cfg q \<Longrightarrow> unknown_reference cfg q"
  by (auto simp: unresolved_reference_def unknown_reference_def datasources_get_def
      split: option.splits if_splits)

lemma unknown_is_unresolved:
  "unknown_reference cfg q \<Longrightarrow> reference_name cfg q \<notin> set Object_prototype_keys
     \<Longrightarrow> unresolved_reference cfg q"
  by (simp add: unresolved_reference_def unknown_reference_def datasources_get_def)

lemma ex_query_nope:
  "ex_nope \<in> set (filtered_targets ex_this (ex_request [ex_target, ex_nope, ex_default]))
   \<and> unresolved_reference (config ex_env_up) ex_nope
   \<and> result (query ex_env_up ex_this (ex_request [ex_target, ex_nope, ex_default]))
       = Thrown (Error ''Unknown Datasource: nope'')
   \<and> fetch_calls (query ex_env_up ex_this (ex_request [ex_target, ex_nope, ex_default])) = []
   \<and> resolve_datasourceId (config ex_env_up) (this_id ex_this) ex_default = Inr (JNum 5)"
  by (simp add: query_defs ex_defs unresolved_reference_def reference_name_def)

text \<open>
  C4. For a target whose \<^verbatim>\<open>datasource\<close> is \<^verbatim>\<open>'default'\<close> the name looked up is
  \<^verbatim>\<open>config.defaultDatasource\<close>, and a target whose name is not in the table
  \<^verbatim>\<open>config.datasources\<close> is to make \<^verbatim>\<open>query\<close> throw before any call of \<^verbatim>\<open>fetch\<close>. The
  code does not do so for every such name. Its test \<^verbatim>\<open>!config.datasources[dsName]\<close> also
  finds the members that the table inherits from \<^verbatim>\<open>Object.prototype\<close>: with a table that
  has the entries \<^verbatim>\<open>prom\<close> and \<^verbatim>\<open>loki\<close> only, a request whose one target has the
  \<^verbatim>\<open>datasource\<close> \<^verbatim>\<open>'toString'\<close> has an unknown reference, and \<^verbatim>\<open>query\<close> does not throw:
  it calls \<^verbatim>\<open>applyTemplateVariables\<close> on the target, calls \<^verbatim>\<open>fetch\<close> once, and the
  entry it sends has \<^verbatim>\<open>datasourceId: undefined\<close>.
\<close>

theorem unknown_reference_not_thrown:
  "ex_toString \<in> set (filtered_targets ex_this (ex_request [ex_toString]))
   \<and> unknown_reference (config ex_env_up) ex_toString
   \<and> datasources (config ex_env_up) ''toString'' = None
   \<and> query ex_env_up ex_this (ex_request [ex_toString])
       = \<lparr>hook_calls = [(ex_toString, [(''v'', JStr ''x'')])], fetch_calls = [ex_opts_toString],
          result = Emitted (Frames [''reply''])\<rparr>
   \<and> js_get ex_toString_entry ''datasourceId'' = JUndefined"
  by (simp add: query_defs ex_defs unknown_reference_def reference_name_def)

text \<open>
  C10. The calls of \<^verbatim>\<open>applyTemplateVariables\<close> that \<^verbatim>\<open>query\<close> makes are, in order, one
  for each target left by the filter that is not an expression, up to the first target
  with an unresolved reference (where line 82 throws); every one passes the
  \<^verbatim>\<open>scopedVars\<close> of the request. When no reference is unresolved these are all the targets
  left by the filter that are not expressions; a target whose reference names a member of
  \<^verbatim>\<open>Object.prototype\<close> is among them. The entry of such a target is what the hook
  returns, with \<^verbatim>\<open>datasourceId\<close>, \<^verbatim>\<open>intervalMs\<close>, \<^verbatim>\<open>maxDataPoints\<close> and \<^verbatim>\<open>orgId\<close> set. The
  hook of the class returns the query it is given.
\<close>

theorem hook_scoped_vars:
  "hook_calls (query env this request)
     = map (\<lambda>q. (q, scopedVars request))
         (filter (\<lambda>q. \<not> is_expression q)
            (takeWhile (\<lambda>q. \<not> unresolved_reference (config env) q) (filtered_targets this request)))
 \<and> (\<forall>c \<in> set (hook_calls (query env this request)). snd c = scopedVars request)
 \<and> ((\<forall>q \<in> set (filtered_targets this request). \<not> unresolved_reference (config env) q) \<longrightarrow>
      hook_calls (query env this request)
        = map (\<lambda>q. (q, scopedVars request))
            (filter (\<lambda>q. \<not> is_expression q) (filtered_targets this request)))
 \<and> (\<not> is_expression q \<and> \<not> unresolved_reference (config env) q \<longrightarrow>
      (\<exists>e. query_entry (config env) this request q = ([(q, scopedVars request)], Inr e)
          \<and> (\<forall>k. k \<notin> {''datasourceId'', ''intervalMs'', ''maxDataPoints'', ''orgId''} \<longrightarrow>
                js_get e k = js_get (applyTemplateVariables this q (scopedVars request)) k)))
 \<and> applyTemplateVariables_default q vars = q"
proof -
  note exact = hook_calls_exact [of env this request]
  from exact have same: "\<forall>c \<in> set (hook_calls (query env this request)). snd c = scopedVars request"
    by auto
  have all: "hook_calls (query env this request)
        = map (\<lambda>q. (q, scopedVars request))
            (filter (\<lambda>q. \<not> is_expression q) (filtered_targets this request))"
    if "\<forall>q \<in> set (filtered_targets this request). \<not> unresolved_reference (config env) q"
  proof -
    from that have "takeWhile (\<lambda>q. \<not> unresolved_reference (config env) q) (filtered_targets this request)
        = filtered_targets this request"
      by (simp add: takeWhile_eq_all_conv)
    with exact show ?thesis by simp
  qed
  have one: "\<exists>e. query_entry (config env) this request q = ([(q, scopedVars request)], Inr e)
          \<and> (\<forall>k. k \<notin> {''datasourceId'', ''intervalMs'', ''maxDataPoints'', ''orgId''} \<longrightarrow>
                js_get e k = js_get (applyTemplateVariables this q (scopedVars request)) k)"
    if "\<not> is_expression q" and "\<not> unresolved_reference (config env) q"
    using that
    by (auto simp: query_entry_def is_expression_def unresolved_reference_def reference_name_def
        resolve_datasourceId_def Let_def js_get_update split: option.splits)
  from exact same all one show ?thesis
    by (simp add: applyTemplateVariables_default_def)
qed

theorem hook_scoped_vars_witness:
  "filtered_targets ex_this_filter (ex_request [ex_hidden, ex_loki, ex_expr, ex_toString])
     = [ex_loki, ex_expr, ex_toString]
   \<and> \<not> unresolved_reference (config ex_env_up) ex_loki
   \<and> \<not> unresolved_reference (config ex_env_up) ex_expr
   \<and> \<not> unresolved_reference (config ex_env_up) ex_toString
   \<and> \<not> is_expression ex_loki \<and> is_expression ex_expr \<and> \<not> is_expression ex_toString
   \<and> scopedVars (ex_request [ex_hidden, ex_loki, ex_expr, ex_toString]) = [(''v'', JStr ''x'')]
   \<and> hook_calls (query ex_env_up ex_this_filter (ex_request [ex_hidden, ex_loki, ex_expr, ex_toString]))
       = [(ex_loki, [(''v'', JStr ''x'')]), (ex_toString, [(''v'', JStr ''x'')])]"
proof -
  let ?req = "ex_request [ex_hidden, ex_loki, ex_expr, ex_toString]"
  have survivors: "filtered_targets ex_this_filter ?req = [ex_loki, ex_expr, ex_toString]"
    by (simp add: filtered_targets_def ex_defs js_get_def)
  have known: "\<not> unresolved_reference (config ex_env_up) ex_loki"
    "\<not> unresolved_reference (config ex_env_up) ex_expr"
    "\<not> unresolved_reference (config ex_env_up) ex_toString"
    by (simp_all add: unresolved_reference_def reference_name_def datasources_get_def
        Object_prototype_keys_def ex_defs js_get_def ExpressionDatasourceID_def)
  have kinds: "\<not> is_expression ex_loki" "is_expression ex_expr" "\<not> is_expression ex_toString"
    by (simp_all add: is_expression_def ex_defs js_get_def ExpressionDatasourceID_def)
  have vars: "scopedVars ?req = [(''v'', JStr ''x'')]"
    by (simp add: ex_request_def)
  from known have "\<forall>q \<in> set (filtered_targets ex_this_filter ?req).
      \<not> unresolved_reference (config ex_env_up) q"
    unfolding survivors by simp
  with hook_scoped_vars [of ex_env_up ex_this_filter ?req ex_loki "[]"]
  have "hook_calls (query ex_env_up ex_this_filter ?req)
      = map (\<lambda>q. (q, scopedVars ?req)) (filter (\<lambda>q. \<not> is_expression q) (filtered_targets ex_this_filter ?req))"
    by blast
  with survivors kinds vars
  have "hook_calls (query ex_env_up ex_this_filter ?req)
      = [(ex_loki, [(''v'', JStr ''x'')]), (ex_toString, [(''v'', JStr ''x'')])]"
    by simp
  with survivors known kinds vars show ?thesis by simp
qed

section \<open>Properties of \<^verbatim>\<open>annotationQuery\<close>\<close>

lemmas anno_defs =
  annotationQuery_def annotationQuery2_def annotation_request_def annotation_request2_def
  annotation_query2_def or_string_def or_number_def resolved_empty_def

lemma ex_anno_query_down:
  "query ex_env_down ex_this (annotation_request (now ex_env_down) ex_options ex_target)
     = \<lparr>hook_calls = [(ex_target, [])], fetch_calls = [ex_anno_opts],
        result = Emitted (Failure ''network error'')\<rparr>"
  by (simp add: query_defs ex_defs anno_defs)

lemma ex_anno_query2_down:
  "query ex_env_down ex_this (annotation_request2 (now ex_env_down) ex_options ex_target)
     = \<lparr>hook_calls = [(ex_target, [])], fetch_calls = [ex_anno_opts2],
        result = Emitted (Failure ''network error'')\<rparr>"
  by (simp add: query_defs ex_defs anno_defs)

text \<open>
  C5. When the annotation is not enabled, or there is no query to run, \<^verbatim>\<open>annotationQuery\<close>
  resolves to the empty list of events and has called \<^verbatim>\<open>fetch\<close> not at all. There is no
  query to run, in the first listing, when \<^verbatim>\<open>prepareAnnotationQuery\<close> is not defined or
  yields no query; in the second listing, when the hook yields nothing or, the hook not
  being defined, the request has no inline query. Both hold when the hook yields nothing
  and no inline query exists.
\<close>

theorem annotation_gate:
  "(\<not> annotation_enable options \<or> prepareAnnotationQuery = None
      \<or> (\<exists>prepare. prepareAnnotationQuery = Some prepare \<and> prepared_query (prepare options) = None)
    \<longrightarrow> annotationQuery env this prepareAnnotationQuery options
          = \<lparr>anno_fetch_calls = [], promise = Resolved [], window_lastAnnotationQuery = None\<rparr>)
 \<and> (\<not> annotation_enable options
      \<or> (case prepareAnnotationQuery' of
            Some prepare \<Rightarrow> prepare options
          | None \<Rightarrow> annotation_annotation options) = None
    \<longrightarrow> annotationQuery2 env this prepareAnnotationQuery' options
          = \<lparr>anno_fetch_calls = [], promise = Resolved [], window_lastAnnotationQuery = None\<rparr>)"
  by (auto simp: annotationQuery_def annotationQuery2_def annotation_query2_def resolved_empty_def
      split: option.splits)

theorem annotation_gate_witness:
  "annotation_enable ex_options \<and> annotation_annotation ex_options = None
   \<and> annotationQuery ex_env_up ex_this None ex_options
       = \<lparr>anno_fetch_calls = [], promise = Resolved [], window_lastAnnotationQuery = None\<rparr>
   \<and> annotationQuery2 ex_env_up ex_this None ex_options
       = \<lparr>anno_fetch_calls = [], promise = Resolved [], window_lastAnnotationQuery = None\<rparr>
   \<and> \<not> annotation_enable (ex_options\<lparr>annotation_enable := False\<rparr>)
   \<and> annotationQuery ex_env_up ex_this (Some ex_prepare) (ex_options\<lparr>annotation_enable := False\<rparr>)
       = \<lparr>anno_fetch_calls = [], promise = Resolved [], window_lastAnnotationQuery = None\<rparr>
   \<and> annotationQuery2 ex_env_up ex_this (Some ex_prepare2) (ex_options\<lparr>annotation_enable := False\<rparr>)
       = \<lparr>anno_fetch_calls = [], promise = Resolved [], window_lastAnnotationQuery = None\<rparr>"
proof -
  have on: "annotation_enable ex_options" and inline: "annotation_annotation ex_options = None"
    and off: "\<not> annotation_enable (ex_options\<lparr>annotation_enable := False\<rparr>)"
    by (simp_all add: ex_options_def)
  note no_hook = annotation_gate [where options = ex_options and prepareAnnotationQuery = None
      and prepareAnnotationQuery' = None and env = ex_env_up and this = ex_this]
  note disabled = annotation_gate [where options = "ex_options\<lparr>annotation_enable := False\<rparr>"
      and prepareAnnotationQuery = "Some ex_prepare" and prepareAnnotationQuery' = "Some ex_prepare2"
      and env = ex_env_up and this = ex_this]
  from no_hook inline have
    "annotationQuery ex_env_up ex_this None ex_options
       = \<lparr>anno_fetch_calls = [], promise = Resolved [], window_lastAnnotationQuery = None\<rparr>"
    "annotationQuery2 ex_env_up ex_this None ex_options
       = \<lparr>anno_fetch_calls = [], promise = Resolved [], window_lastAnnotationQuery = None\<rparr>"
    by simp_all
  moreover from disabled off have
    "annotationQuery ex_env_up ex_this (Some ex_prepare) (ex_options\<lparr>annotation_enable := False\<rparr>)
       = \<lparr>anno_fetch_calls = [], promise = Resolved [], window_lastAnnotationQuery = None\<rparr>"
    "annotationQuery2 ex_env_up ex_this (Some ex_prepare2) (ex_options\<lparr>annotation_enable := False\<rparr>)
       = \<lparr>anno_fetch_calls = [], promise = Resolved [], window_lastAnnotationQuery = None\<rparr>"
    by simp_all
  ultimately show ?thesis using on inline off by simp
qed

lemma annotationQuery_Emitted:
  assumes "prepareAnnotationQuery = Some prepare" "annotation_enable options"
    "prepared_query (prepare options) = Some q"
    "result (query env this (annotation_request (now env) options q)) = Emitted rsp"
    "data rsp = None \<or> data rsp = Some []"
  shows "promise (annotationQuery env this prepareAnnotationQuery options) = Resolved []"
  using assms by (auto simp: annotationQuery_def Let_def)

lemma annotationQuery2_Emitted:
  assumes "annotation_enable options" "annotation_query2 prepareAnnotationQuery' options = Some q"
    "result (query env this (annotation_request2 (now env) options q)) = Emitted rsp"
    "data rsp = None \<or> data rsp = Some []"
  shows "promise (annotationQuery2 env this prepareAnnotationQuery' options) = Resolved []"
  using assms by (auto simp: annotationQuery2_def Let_def)

lemma dispatched_Failed:
  assumes "fetch_calls (query env this request) = [opts]" "fetch env opts = Failed err"
    "toDataQueryResponse env err = Inr rsp"
  shows "result (query env this request) = Emitted rsp"
  using dispatched_result [OF assms(1)] assms(2,3) by (simp add: decode_piped_Failed)

text \<open>
  C6. An annotation request passes the gate and \<^verbatim>\<open>query\<close> is called. When \<^verbatim>\<open>query\<close>
  emits a failure, the promise of \<^verbatim>\<open>annotationQuery\<close> resolves to the empty list of
  events; so it does when \<^verbatim>\<open>fetch\<close> has been called and fails with an error of which
  \<^verbatim>\<open>toDataQueryResponse\<close> makes a failure. This holds in both listings.
\<close>

theorem annotation_failure_no_events:
  "(prepareAnnotationQuery = Some prepare \<and> annotation_enable options
      \<and> prepared_query (prepare options) = Some q
      \<and> result (query env this (annotation_request (now env) options q)) = Emitted (Failure d)
    \<longrightarrow> promise (annotationQuery env this prepareAnnotationQuery options) = Resolved [])
 \<and> (prepareAnnotationQuery = Some prepare \<and> annotation_enable options
      \<and> prepared_query (prepare options) = Some q
      \<and> fetch_calls (query env this (annotation_request (now env) options q)) = [opts]
      \<and> fetch env opts = Failed err \<and> toDataQueryResponse env err = Inr (Failure d)
    \<longrightarrow> promise (annotationQuery env this prepareAnnotationQuery options) = Resolved [])
 \<and> (annotation_enable options
      \<and> (case prepareAnnotationQuery' of
            Some prepare' \<Rightarrow> prepare' options
          | None \<Rightarrow> annotation_annotation options) = Some q
      \<and> result (query env this (annotation_request2 (now env) options q)) = Emitted (Failure d)
    \<longrightarrow> promise (annotationQuery2 env this prepareAnnotationQuery' options) = Resolved [])
 \<and> (annotation_enable options
      \<and> (case prepareAnnotationQuery' of
            Some prepare' \<Rightarrow> prepare' options
          | None \<Rightarrow> annotation_annotation options) = Some q
      \<and> fetch_calls (query env this (annotation_request2 (now env) options q)) = [opts]
      \<and> fetch env opts = Failed err \<and> toDataQueryResponse env err = Inr (Failure d)
    \<longrightarrow> promise (annotationQuery2 env this prepareAnnotationQuery' options) = Resolved [])"
proof -
  have no_frames: "data (Failure d) = None \<or> data (Failure d) = Some []" by simp
  have query2: "annotation_query2 prepareAnnotationQuery' options
      = (case prepareAnnotationQuery' of
            Some prepare' \<Rightarrow> prepare' options
          | None \<Rightarrow> annotation_annotation options)"
    by (simp add: annotation_query2_def)
  have first: "promise (annotationQuery env this prepareAnnotationQuery options) = Resolved []"
    if "prepareAnnotationQuery = Some prepare" "annotation_enable options"
      "prepared_query (prepare options) = Some q"
      "result (query env this (annotation_request (now env) options q)) = Emitted (Failure d)"
    using annotationQuery_Emitted [OF that no_frames] .
  have first_down: "promise (annotationQuery env this prepareAnnotationQuery options) = Resolved []"
    if "prepareAnnotationQuery = Some prepare" "annotation_enable options"
      "prepared_query (prepare options) = Some q"
      "fetch_calls (query env this (annotation_request (now env) options q)) = [opts]"
      "fetch env opts = Failed err" "toDataQueryResponse env err = Inr (Failure d)"
    using first [OF that(1-3) dispatched_Failed [OF that(4-6)] ] .
  have second: "promise (annotationQuery2 env this prepareAnnotationQuery' options) = Resolved []"
    if "annotation_enable options"
      "(case prepareAnnotationQuery' of
            Some prepare' \<Rightarrow> prepare' options
          | None \<Rightarrow> annotation_annotation options) = Some q"
      "result (query env this (annotation_request2 (now env) options q)) = Emitted (Failure d)"
    using annotationQuery2_Emitted [OF that(1) _ that(3) no_frames] that(2) query2 by simp
  have second_down: "promise (annotationQuery2 env this prepareAnnotationQuery' options) = Resolved []"
    if "annotation_enable options"
      "(case prepareAnnotationQuery' of
            Some prepare' \<Rightarrow> prepare' options
          | None \<Rightarrow> annotation_annotation options) = Some q"
      "fetch_calls (query env this (annotation_request2 (now env) options q)) = [opts]"
      "fetch env opts = Failed err" "toDataQueryResponse env err = Inr (Failure d)"
    using second [OF that(1,2) dispatched_Failed [OF that(3-5)] ] .
  from first first_down second second_down show ?thesis by blast
qed

theorem annotation_failure_no_events_witness:
  "annotation_enable ex_options \<and> prepared_query (ex_prepare ex_options) = Some ex_target
   \<and> ex_prepare2 ex_options = Some ex_target
   \<and> fetch_calls (query ex_env_down ex_this (annotation_request (now ex_env_down) ex_options ex_target))
       = [ex_anno_opts]
   \<and> fetch_calls (query ex_env_down ex_this (annotation_request2 (now ex_env_down) ex_options ex_target))
       = [ex_anno_opts2]
   \<and> fetch ex_env_down ex_anno_opts = Failed ''network error''
   \<and> fetch ex_env_down ex_anno_opts2 = Failed ''network error''
   \<and> toDataQueryResponse ex_env_down ''network error'' = Inr (Failure ''network error'')
   \<and> promise (annotationQuery ex_env_down ex_this (Some ex_prepare) ex_options) = Resolved []
   \<and> promise (annotationQuery2 ex_env_down ex_this (Some ex_prepare2) ex_options) = Resolved []"
proof -
  have gate: "annotation_enable ex_options" "prepared_query (ex_prepare ex_options) = Some ex_target"
    "ex_prepare2 ex_options = Some ex_target"
    by (simp_all add: ex_options_def ex_prepare_def ex_prepare2_def)
  have sent: "fetch_calls (query ex_env_down ex_this (annotation_request (now ex_env_down) ex_options ex_target))
       = [ex_anno_opts]"
    "fetch_calls (query ex_env_down ex_this (annotation_request2 (now ex_env_down) ex_options ex_target))
       = [ex_anno_opts2]"
    by (simp_all add: ex_anno_query_down ex_anno_query2_down)
  have down: "fetch ex_env_down ex_anno_opts = Failed ''network error''"
    "fetch ex_env_down ex_anno_opts2 = Failed ''network error''"
    "toDataQueryResponse ex_env_down ''network error'' = Inr (Failure ''network error'')"
    by (simp_all add: ex_env_down_def ex_decode_def)
  note inst = annotation_failure_no_events [where prepareAnnotationQuery = "Some ex_prepare"
      and prepare = ex_prepare and options = ex_options and q = ex_target and env = ex_env_down
      and this = ex_this and d = "''network error''" and opts = ex_anno_opts
      and err = "''network error''" and prepareAnnotationQuery' = "Some ex_prepare2"]
    annotation_failure_no_events [where prepareAnnotationQuery = "Some ex_prepare"
      and prepare = ex_prepare and options = ex_options and q = ex_target and env = ex_env_down
      and this = ex_this and d = "''network error''" and opts = ex_anno_opts2
      and err = "''network error''" and prepareAnnotationQuery' = "Some ex_prepare2"]
  from inst(1) gate sent(1) down
  have first: "promise (annotationQuery ex_env_down ex_this (Some ex_prepare) ex_options) = Resolved []"
    by simp
  from inst(2) gate sent(2) down
  have second: "promise (annotationQuery2 ex_env_down ex_this (Some ex_prepare2) ex_options) = Resolved []"
    by simp
  from gate sent down first second show ?thesis by simp
qed

text \<open>
  C7, as the code has it. An annotation request passes the gate; \<^verbatim>\<open>annotationQuery\<close> calls
  \<^verbatim>\<open>query\<close> with a request whose \<^verbatim>\<open>requestId\<close> is \<^verbatim>\<open>anno-\<close> followed by the decimal
  digits of \<^verbatim>\<open>Date.now()\<close>, whose \<^verbatim>\<open>scopedVars\<close> are empty, whose \<^verbatim>\<open>timezone\<close> is that of
  the dashboard and whose only target is the query, in both listings. In the first listing
  (lines 169--178) \<^verbatim>\<open>interval\<close> and \<^verbatim>\<open>intervalMs\<close> are those of the annotation request,
  absent when they are absent there. In the second listing (lines 402--413) an absent (or
  empty) \<^verbatim>\<open>interval\<close> becomes \<^verbatim>\<open>'1m'\<close> and an absent (or zero) \<^verbatim>\<open>intervalMs\<close> becomes
  \<^verbatim>\<open>60000\<close>.
\<close>

theorem annotation_request_composed:
  "(prepareAnnotationQuery = Some prepare \<and> annotation_enable options
      \<and> prepared_query (prepare options) = Some q \<longrightarrow>
      anno_fetch_calls (annotationQuery env this prepareAnnotationQuery options)
        = fetch_calls (query env this (annotation_request (now env) options q))
    \<and> requestId (annotation_request (now env) options q) = ''anno-'' @ number_toString (now env)
    \<and> scopedVars (annotation_request (now env) options q) = []
    \<and> timezone (annotation_request (now env) options q) = dashboard_timezone options
    \<and> targets (annotation_request (now env) options q) = [q]
    \<and> interval (annotation_request (now env) options q) = anno_interval options
    \<and> intervalMs (annotation_request (now env) options q) = anno_intervalMs options)
 \<and> (annotation_enable options
      \<and> (case prepareAnnotationQuery' of
            Some prepare' \<Rightarrow> prepare' options
          | None \<Rightarrow> annotation_annotation options) = Some q \<longrightarrow>
      anno_fetch_calls (annotationQuery2 env this prepareAnnotationQuery' options)
        = fetch_calls (query env this (annotation_request2 (now env) options q))
    \<and> requestId (annotation_request2 (now env) options q) = ''anno-'' @ number_toString (now env)
    \<and> scopedVars (annotation_request2 (now env) options q) = []
    \<and> timezone (annotation_request2 (now env) options q) = dashboard_timezone options
    \<and> targets (annotation_request2 (now env) options q) = [q]
    \<and> (anno_interval options = None \<longrightarrow>
          interval (annotation_request2 (now env) options q) = Some ''1m'')
    \<and> (anno_intervalMs options = None \<longrightarrow>
          intervalMs (annotation_request2 (now env) options q) = Some 60000)
    \<and> (\<forall>s. anno_interval options = Some s \<longrightarrow>
          interval (annotation_request2 (now env) options q) = Some (if s = [] then ''1m'' else s))
    \<and> (\<forall>n. anno_intervalMs options = Some n \<longrightarrow>
          intervalMs (annotation_request2 (now env) options q) = Some (if n = 0 then 60000 else n)))"
proof -
  have first: "anno_fetch_calls (annotationQuery env this prepareAnnotationQuery options)
        = fetch_calls (query env this (annotation_request (now env) options q))"
    if "prepareAnnotationQuery = Some prepare" "annotation_enable options"
      "prepared_query (prepare options) = Some q"
    using that by (simp add: annotationQuery_def Let_def)
  have second: "anno_fetch_calls (annotationQuery2 env this prepareAnnotationQuery' options)
        = fetch_calls (query env this (annotation_request2 (now env) options q))"
    if "annotation_enable options"
      "(case prepareAnnotationQuery' of
            Some prepare' \<Rightarrow> prepare' options
          | None \<Rightarrow> annotation_annotation options) = Some q"
    using that
    by (simp add: annotationQuery2_def annotation_query2_def Let_def
        split: QueryResult.splits option.splits list.splits)
  from first second show ?thesis
    by (simp add: annotation_request_def annotation_request2_def or_string_def or_number_def)
qed

theorem annotation_request_composed_witness:
  "annotation_enable ex_options
   \<and> prepared_query (ex_prepare ex_options) = Some ex_target
   \<and> ex_prepare2 ex_options = Some ex_target
   \<and> anno_interval ex_options = None \<and> anno_intervalMs ex_options = None
   \<and> dashboard_timezone ex_options = Some ''utc''
   \<and> requestId (annotation_request (now ex_env_down) ex_options ex_target) = ''anno-1600000000000''
   \<and> scopedVars (annotation_request (now ex_env_down) ex_options ex_target) = []
   \<and> timezone (annotation_request (now ex_env_down) ex_options ex_target) = Some ''utc''
   \<and> interval (annotation_request (now ex_env_down) ex_options ex_target) = None
   \<and> intervalMs (annotation_request (now ex_env_down) ex_options ex_target) = None
   \<and> requestId (annotation_request2 (now ex_env_down) ex_options ex_target) = ''anno-1600000000000''
   \<and> scopedVars (annotation_request2 (now ex_env_down) ex_options ex_target) = []
   \<and> timezone (annotation_request2 (now ex_env_down) ex_options ex_target) = Some ''utc''
   \<and> interval (annotation_request2 (now ex_env_down) ex_options ex_target) = Some ''1m''
   \<and> intervalMs (annotation_request2 (now ex_env_down) ex_options ex_target) = Some 60000
   \<and> anno_fetch_calls (annotationQuery ex_env_down ex_this (Some ex_prepare) ex_options) = [ex_anno_opts]
   \<and> anno_fetch_calls (annotationQuery2 ex_env_down ex_this (Some ex_prepare2) ex_options) = [ex_anno_opts2]"
proof -
  have gate: "annotation_enable ex_options" "prepared_query (ex_prepare ex_options) = Some ex_target"
    "ex_prepare2 ex_options = Some ex_target"
    "anno_interval ex_options = None" "anno_intervalMs ex_options = None"
    "dashboard_timezone ex_options = Some ''utc''"
    by (simp_all add: ex_options_def ex_prepare_def ex_prepare2_def)
  have clock: "''anno-'' @ number_toString (now ex_env_down) = ''anno-1600000000000''"
    by (simp add: ex_env_down_def number_toString_def digits10.simps digit_char_def)
  note inst = annotation_request_composed [where prepareAnnotationQuery = "Some ex_prepare"
      and prepare = ex_prepare and options = ex_options and q = ex_target and env = ex_env_down
      and this = ex_this and prepareAnnotationQuery' = "Some ex_prepare2"]
  from inst gate clock show ?thesis
    by (simp add: ex_anno_query_down ex_anno_query2_down)
qed

text \<open>
  The first listing sets no default: for an enabled annotation request without
  \<^verbatim>\<open>interval\<close> and \<^verbatim>\<open>intervalMs\<close>, whose hook yields a query, the request given to
  \<^verbatim>\<open>query\<close> has neither, and the entry that is sent has \<^verbatim>\<open>intervalMs: undefined\<close>.
\<close>

theorem annotation_request_defaults_counterexample:
  "annotation_enable ex_options
   \<and> prepared_query (ex_prepare ex_options) = Some ex_target
   \<and> anno_interval ex_options = None
   \<and> anno_intervalMs ex_options = None
   \<and> interval (annotation_request (now ex_env_down) ex_options ex_target) \<noteq> Some ''1m''
   \<and> intervalMs (annotation_request (now ex_env_down) ex_options ex_target) \<noteq> Some 60000
   \<and> anno_fetch_calls (annotationQuery ex_env_down ex_this (Some ex_prepare) ex_options) = [ex_anno_opts]
   \<and> js_get (hd (queries (fetch_data ex_anno_opts))) ''intervalMs'' = JUndefined"
proof -
  have sent: "anno_fetch_calls (annotationQuery ex_env_down ex_this (Some ex_prepare) ex_options)
      = [ex_anno_opts]"
    by (simp add: annotationQuery_def ex_prepare_def ex_options_def
        ex_anno_query_down [unfolded ex_options_def])
  then show ?thesis
    by (simp add: ex_options_def ex_prepare_def annotation_request_def ex_anno_opts_def js_get_def)
qed

end
